theory Spec2Isabelle
  imports Complex_Main "HOL-Library.Sublist"
begin

section \<open>JavaScript strings\<close>

text \<open>
  A JavaScript string is a sequence of UTF-16 code units. A code unit is written as its
  number (below 65536; nothing below depends on the bound), so that every text the user can
  type, Bengali included, and every white space character of \<^verbatim>\<open>String.prototype.trim\<close> is a
  value of the type. \<open>lit\<close> turns an ASCII literal of the source into its code units.
\<close>

type_synonym js_string = "nat list"

definition lit :: "string \<Rightarrow> js_string" where
  "lit s = map of_char s"

section \<open>Data model (types.ts)\<close>

text \<open>
  \<^verbatim>\<open>TranscriptionItem\<close> is \<^verbatim>\<open>{ id: string; text: string; isUser: boolean; timestamp: Date }\<close>;
  the fields \<^verbatim>\<open>id\<close> and \<^verbatim>\<open>text\<close> are written \<open>itemId\<close> and \<open>itemText\<close> here.
  A \<^verbatim>\<open>Date\<close> is the clock reading (in milliseconds) at which it was created.
\<close>

record TranscriptionItem =
  itemId :: js_string
  itemText :: js_string
  isUser :: bool
  timestamp :: nat

datatype RecorderState = IDLE | RECORDING | PROCESSING | ERROR

section \<open>JavaScript values the translation hook inspects\<close>

text \<open>
  A value thrown by the remote call, as far as the hook looks at it:
  \<^verbatim>\<open>e.message\<close> (possibly undefined), \<^verbatim>\<open>e.status\<close> (\<open>None\<close> when it is undefined or not a
  number: it is only compared with 429) and the string \<^verbatim>\<open>e.toString()\<close> returns.
\<close>

record js_error =
  message :: "js_string option"
  status :: "nat option"
  toStr :: js_string

text \<open>The object \<^verbatim>\<open>generateContent\<close> resolves to: only its \<^verbatim>\<open>text\<close> is read.\<close>

record response =
  responseText :: "js_string option"

text \<open>What is sent to the model: the audio parts (mime type, base64 data) or the typed text.\<close>

datatype request = AudioRequest js_string js_string | TextRequest js_string

text \<open>
  The remote endpoint is an oracle: \<open>remote k req\<close> is what the call number \<open>k\<close>
  (counted from 0) of one translate invocation does with the request: it rejects
  with an error (\<open>Inl\<close>) or resolves to a response (\<open>Inr\<close>).
\<close>

type_synonym remote = "nat \<Rightarrow> request \<Rightarrow> js_error + response"

text \<open>\<^verbatim>\<open>String.prototype.includes\<close>.\<close>

definition str_includes :: "js_string \<Rightarrow> js_string \<Rightarrow> bool" where
  "str_includes s needle = sublist needle s"

text \<open>
  \<^verbatim>\<open>e.message?.includes('429') || e.status === 429 || e.toString().includes('RESOURCE_EXHAUSTED')\<close>
\<close>

definition isQuota :: "js_error \<Rightarrow> bool" where
  "isQuota e =
     ((case message e of None \<Rightarrow> False | Some m \<Rightarrow> str_includes m (lit ''429''))
      \<or> status e = Some 429
      \<or> str_includes (toStr e) (lit ''RESOURCE_EXHAUSTED''))"

text \<open>\<^verbatim>\<open>response?.text || fallback\<close>: an undefined response, an undefined text and the
  empty string are all falsy.\<close>

definition textOr :: "response option \<Rightarrow> js_string \<Rightarrow> js_string" where
  "textOr r fallback =
     (case r of
        None \<Rightarrow> fallback
      | Some resp \<Rightarrow>
          (case responseText resp of
             None \<Rightarrow> fallback
           | Some t \<Rightarrow> if t = [] then fallback else t))"

text \<open>\<^verbatim>\<open>Number.prototype.toString\<close> on a non-negative integer: its decimal digits, the
  digit \<open>d\<close> being the code unit \<open>48 + d\<close>.\<close>

definition digitUnit :: "nat \<Rightarrow> nat" where
  "digitUnit d = 48 + d"

function toStringNat :: "nat \<Rightarrow> js_string" where
  "toStringNat n =
     (if n < 10 then [digitUnit n] else toStringNat (n div 10) @ [digitUnit (n mod 10)])"
  by pat_completeness auto
termination
  by (relation "measure (\<lambda>n. n)") auto

declare toStringNat.simps [simp del]

text \<open>
  \<^verbatim>\<open>String.prototype.trim\<close> removes leading and trailing white space and line terminators.
  By the language specification these are the code units
  U+0009 to U+000D, U+0020, U+00A0, U+1680, U+2000 to U+200A, U+2028, U+2029, U+202F,
  U+205F, U+3000 and U+FEFF (tab, line feed, vertical tab, form feed, carriage return, the
  characters of the Unicode category Zs, the line and paragraph separators, and the byte
  order mark). All of them are single code units.
\<close>

definition isSpace :: "nat \<Rightarrow> bool" where
  "isSpace c =
     ((0x0009 \<le> c \<and> c \<le> 0x000D) \<or> c = 0x0020 \<or> c = 0x00A0 \<or> c = 0x1680
      \<or> (0x2000 \<le> c \<and> c \<le> 0x200A) \<or> c = 0x2028 \<or> c = 0x2029 \<or> c = 0x202F
      \<or> c = 0x205F \<or> c = 0x3000 \<or> c = 0xFEFF)"

definition trim :: "js_string \<Rightarrow> js_string" where
  "trim s = rev (dropWhile isSpace (rev (dropWhile isSpace s)))"

text \<open>The process environment: \<^verbatim>\<open>process.env.API_KEY\<close>, undefined when not configured.\<close>

record env =
  API_KEY :: "js_string option"

text \<open>\<^verbatim>\<open>!process.env.API_KEY\<close>: the key is undefined or the empty string.\<close>

definition noApiKey :: "env \<Rightarrow> bool" where
  "noApiKey ev = (case API_KEY ev of None \<Rightarrow> True | Some k \<Rightarrow> k = [])"

section \<open>The retry loop of translateAudio and translateText\<close>

text \<open>
  Both functions contain the same loop:
  \<^verbatim>\<open>
  let response; let attempt = 0; const maxRetries = 3; let delayMs = 1000;
  while (attempt < maxRetries) {
    try { response = await ai.models.generateContent(...); break; }
    catch (e) {
      const isQuota = ...;
      if (isQuota && attempt < maxRetries - 1) {
        attempt++; await wait(delayMs); delayMs *= 2; continue;
      }
      throw e;
    }
  }
  \<close>
  The model also records what the loop does to the outside: \<open>calls\<close> counts the
  invocations of \<^verbatim>\<open>generateContent\<close>, \<open>waits\<close> lists the arguments of \<^verbatim>\<open>wait\<close> in order.
  \<open>outcome\<close> is \<open>Inl e\<close> when the loop throws \<open>e\<close>, and \<open>Inr response\<close> when it ends
  normally (\<open>None\<close>: \<^verbatim>\<open>response\<close> is still undefined).
\<close>

definition maxRetries :: nat where
  "maxRetries = 3"

record attempts =
  outcome :: "js_error + response option"
  calls :: nat
  waits :: "nat list"

function retryLoop ::
  "remote \<Rightarrow> request \<Rightarrow> nat \<Rightarrow> nat \<Rightarrow> nat \<Rightarrow> nat list \<Rightarrow> attempts" where
  "retryLoop rem req attempt delayMs n ws =
     (if attempt < maxRetries then
        (case rem n req of
           Inr resp \<Rightarrow> \<lparr>outcome = Inr (Some resp), calls = Suc n, waits = ws\<rparr>
         | Inl e \<Rightarrow>
             if isQuota e \<and> attempt < maxRetries - 1
             then retryLoop rem req (attempt + 1) (delayMs * 2) (Suc n) (ws @ [delayMs])
             else \<lparr>outcome = Inl e, calls = Suc n, waits = ws\<rparr>)
      else \<lparr>outcome = Inr None, calls = n, waits = ws\<rparr>)"
  by pat_completeness auto
termination
  by (relation "measure (\<lambda>(rem, req, attempt, delayMs, n, ws). maxRetries - attempt)") auto

declare retryLoop.simps [simp del]

text \<open>The loop as both functions start it: \<^verbatim>\<open>attempt = 0\<close>, \<^verbatim>\<open>delayMs = 1000\<close>.\<close>

definition generateWithRetry :: "remote \<Rightarrow> request \<Rightarrow> attempts" where
  "generateWithRetry rem req = retryLoop rem req 0 1000 0 []"

text \<open>A translate call that never reaches the loop.\<close>

definition noAttempts :: attempts where
  "noAttempts = \<lparr>outcome = Inr None, calls = 0, waits = []\<rparr>"

section \<open>The state of the hook useLiveTranslator\<close>

text \<open>
  The hook holds three pieces of React state (\<^verbatim>\<open>recorderState\<close>, \<^verbatim>\<open>volume\<close>,
  \<^verbatim>\<open>transcriptions\<close>) and five refs. The refs point to browser objects that live on
  after a ref is overwritten, so the objects are kept in stores and a ref is a handle
  (an index) into its store:
  \<^item> \<open>streams\<close>: for every \<^verbatim>\<open>MediaStream\<close> that \<^verbatim>\<open>getUserMedia\<close> has handed out, the
    number of its tracks that are still live;
  \<^item> \<open>contexts\<close>: for every \<^verbatim>\<open>AudioContext\<close> created, whether it is still open;
  \<^item> \<open>recorders\<close>: every \<^verbatim>\<open>MediaRecorder\<close> created.
  \<open>pendingStarts\<close> counts the invocations of \<^verbatim>\<open>startRecording\<close> that are suspended at
  \<^verbatim>\<open>await navigator.mediaDevices.getUserMedia(...)\<close>.
\<close>

record recorder =
  recActive :: bool
  recMimeType :: js_string

record session =
  recorderState :: RecorderState
  volume :: real
  transcriptions :: "TranscriptionItem list"
  audioContextRef :: "nat option"
  analyserRef :: "nat option"
  streamRef :: "nat option"
  mediaRecorderRef :: "nat option"
  audioChunksRef :: "nat list"
  streams :: "nat list"
  contexts :: "bool list"
  recorders :: "recorder list"
  pendingStarts :: nat

text \<open>The state after the first render: the initial values of \<^verbatim>\<open>useState\<close> and \<^verbatim>\<open>useRef\<close>.\<close>

definition initialSession :: session where
  "initialSession =
     \<lparr>recorderState = IDLE, volume = 0, transcriptions = [],
      audioContextRef = None, analyserRef = None, streamRef = None,
      mediaRecorderRef = None, audioChunksRef = [],
      streams = [], contexts = [], recorders = [], pendingStarts = 0\<rparr>"

text \<open>The live tracks of the stream \<^verbatim>\<open>streamRef.current\<close> points to (none when it is null).\<close>

definition activeTracks :: "session \<Rightarrow> nat" where
  "activeTracks s =
     (case streamRef s of
        None \<Rightarrow> 0
      | Some h \<Rightarrow> if h < length (streams s) then streams s ! h else 0)"

text \<open>The live tracks of all streams handed out so far, whether a ref still points to them or not.\<close>

definition liveTracks :: "session \<Rightarrow> nat" where
  "liveTracks s = sum_list (streams s)"

section \<open>Helpers: updateVolume, cleanupAudio, clearHistory\<close>

text \<open>
  \<^verbatim>\<open>
  const updateVolume = () => {
    if (!analyserRef.current || !streamRef.current?.active) return;
    ... getByteFrequencyData(dataArray); sum over dataArray ...
    setVolume(sum / dataArray.length);
    requestAnimationFrame(updateVolume);
  };
  \<close>
  \<open>bins\<close> is what the analyser writes into \<^verbatim>\<open>dataArray\<close> (128 bytes for \<^verbatim>\<open>fftSize = 256\<close>,
  so the division is never by zero).
  A stream is active while one of its tracks is live.
\<close>

definition updateVolume :: "nat list \<Rightarrow> session \<Rightarrow> session" where
  "updateVolume bins s =
     (if analyserRef s = None \<or> activeTracks s = 0 then s
      else s\<lparr>volume := real (sum_list bins) / real (length bins)\<rparr>)"

text \<open>
  \<^verbatim>\<open>
  const cleanupAudio = () => {
    if (streamRef.current) {
      streamRef.current.getTracks().forEach(track => track.stop());
      streamRef.current = null;
    }
    if (audioContextRef.current) {
      audioContextRef.current.close();
      audioContextRef.current = null;
    }
    setVolume(0);
  };
  \<close>
\<close>

definition stopTracks :: "session \<Rightarrow> session" where
  "stopTracks s =
     (case streamRef s of
        None \<Rightarrow> s
      | Some h \<Rightarrow> s\<lparr>streams := (streams s)[h := 0], streamRef := None\<rparr>)"

definition closeContext :: "session \<Rightarrow> session" where
  "closeContext s =
     (case audioContextRef s of
        None \<Rightarrow> s
      | Some c \<Rightarrow> s\<lparr>contexts := (contexts s)[c := False], audioContextRef := None\<rparr>)"

definition cleanupAudio :: "session \<Rightarrow> session" where
  "cleanupAudio s = (closeContext (stopTracks s))\<lparr>volume := 0\<rparr>"

definition clearHistory :: "session \<Rightarrow> session" where
  "clearHistory s = s\<lparr>transcriptions := []\<rparr>"

section \<open>Translation: translateAudio and translateText\<close>

text \<open>
  \<^verbatim>\<open>setTranscriptions(prev => prev.map(item => item.id === botMsgId ? { ...item, text: t } : item))\<close>
\<close>

definition setItemText :: "js_string \<Rightarrow> js_string \<Rightarrow> TranscriptionItem \<Rightarrow> TranscriptionItem" where
  "setItemText botMsgId t item = (if itemId item = botMsgId then item\<lparr>itemText := t\<rparr> else item)"

definition resolveItem :: "js_string \<Rightarrow> js_string \<Rightarrow> session \<Rightarrow> session" where
  "resolveItem botMsgId t s = s\<lparr>transcriptions := map (setItemText botMsgId t) (transcriptions s)\<rparr>"

text \<open>\<^verbatim>\<open>setTranscriptions(prev => [...prev, item])\<close>\<close>

definition appendItem :: "TranscriptionItem \<Rightarrow> session \<Rightarrow> session" where
  "appendItem item s = s\<lparr>transcriptions := transcriptions s @ [item]\<rparr>"

text \<open>
  The \<^verbatim>\<open>catch (error)\<close> block of both functions:
  \<^verbatim>\<open>
  let errorMessage = "Error during translation.";
  if (error.message?.includes('429') || error.status === 429
      || error.toString().includes('RESOURCE_EXHAUSTED')) {
    errorMessage = "Service busy (Quota Exceeded). Please try again in a moment.";
  }
  \<close>
\<close>

definition errorMessage :: "js_error \<Rightarrow> js_string" where
  "errorMessage e =
     (if isQuota e then lit ''Service busy (Quota Exceeded). Please try again in a moment.''
      else lit ''Error during translation.'')"

text \<open>
  \<^verbatim>\<open>translateAudio\<close> in two parts, since other handlers run while it awaits the remote
  call. \<open>translateAudio_begin\<close> is the synchronous part: the credential check and the
  placeholder, whose id is \<^verbatim>\<open>Date.now().toString()\<close>; it returns the id, or \<open>None\<close>
  after the early \<^verbatim>\<open>return\<close>. \<open>translateAudio_settle\<close> is what runs once the retry loop
  has ended: the update with \<^verbatim>\<open>response?.text || "Could not translate audio."\<close>, or the
  \<^verbatim>\<open>catch\<close> block. \<open>now\<close> is the reading of \<^verbatim>\<open>Date.now()\<close>, \<open>stamp\<close> that of \<^verbatim>\<open>new Date()\<close>.
\<close>

definition translateAudio_begin :: "env \<Rightarrow> nat \<Rightarrow> nat \<Rightarrow> session \<Rightarrow> session \<times> js_string option" where
  "translateAudio_begin ev now stamp s =
     (if noApiKey ev then (s, None)
      else
        (let botMsgId = toStringNat now in
         (appendItem \<lparr>itemId = botMsgId, itemText = lit ''Translating...'', isUser = False,
                      timestamp = stamp\<rparr> s,
          Some botMsgId)))"

definition translateAudio_settle :: "js_string \<Rightarrow> js_error + response option \<Rightarrow> session \<Rightarrow> session" where
  "translateAudio_settle botMsgId res s =
     (case res of
        Inr resp \<Rightarrow> resolveItem botMsgId (textOr resp (lit ''Could not translate audio.'')) s
      | Inl e \<Rightarrow> resolveItem botMsgId (errorMessage e) s)"

text \<open>The whole call, when no other handler runs in between.\<close>

definition translateAudio ::
  "env \<Rightarrow> remote \<Rightarrow> nat \<Rightarrow> nat \<Rightarrow> js_string \<Rightarrow> js_string \<Rightarrow> session \<Rightarrow> session \<times> attempts" where
  "translateAudio ev rem now stamp base64Audio mimeType s =
     (case translateAudio_begin ev now stamp s of
        (s1, None) \<Rightarrow> (s1, noAttempts)
      | (s1, Some botMsgId) \<Rightarrow>
          (let a = generateWithRetry rem (AudioRequest mimeType base64Audio)
           in (translateAudio_settle botMsgId (outcome a) s1, a)))"

text \<open>
  \<^verbatim>\<open>translateText\<close>, split the same way. It returns at once when the credential is
  missing or \<^verbatim>\<open>text.trim()\<close> is empty; otherwise it appends the user's item with id
  \<^verbatim>\<open>Date.now().toString()\<close> and the placeholder with id \<^verbatim>\<open>(Date.now() + 1).toString()\<close>.
  \<open>nowU\<close> and \<open>nowB\<close> are the two readings of \<^verbatim>\<open>Date.now()\<close>, \<open>stampU\<close> and \<open>stampB\<close> the
  two of \<^verbatim>\<open>new Date()\<close>. The fallback here is \<^verbatim>\<open>"Could not translate."\<close>.
\<close>

definition translateText_begin ::
  "env \<Rightarrow> nat \<Rightarrow> nat \<Rightarrow> nat \<Rightarrow> nat \<Rightarrow> js_string \<Rightarrow> session \<Rightarrow> session \<times> js_string option" where
  "translateText_begin ev nowU stampU nowB stampB input s =
     (if noApiKey ev \<or> trim input = [] then (s, None)
      else
        (let userMsgId = toStringNat nowU;
             s1 = appendItem \<lparr>itemId = userMsgId, itemText = input, isUser = True,
                              timestamp = stampU\<rparr> s;
             botMsgId = toStringNat (nowB + 1);
             s2 = appendItem \<lparr>itemId = botMsgId, itemText = lit ''Translating...'', isUser = False,
                              timestamp = stampB\<rparr> s1
         in (s2, Some botMsgId)))"

definition translateText_settle :: "js_string \<Rightarrow> js_error + response option \<Rightarrow> session \<Rightarrow> session" where
  "translateText_settle botMsgId res s =
     (case res of
        Inr resp \<Rightarrow> resolveItem botMsgId (textOr resp (lit ''Could not translate.'')) s
      | Inl e \<Rightarrow> resolveItem botMsgId (errorMessage e) s)"

definition translateText ::
  "env \<Rightarrow> remote \<Rightarrow> nat \<Rightarrow> nat \<Rightarrow> nat \<Rightarrow> nat \<Rightarrow> js_string \<Rightarrow> session \<Rightarrow> session \<times> attempts" where
  "translateText ev rem nowU stampU nowB stampB input s =
     (case translateText_begin ev nowU stampU nowB stampB input s of
        (s1, None) \<Rightarrow> (s1, noAttempts)
      | (s1, Some botMsgId) \<Rightarrow>
          (let a = generateWithRetry rem (TextRequest input)
           in (translateText_settle botMsgId (outcome a) s1, a)))"

section \<open>Recording: startRecording, stopRecording, handleRecordingStop\<close>

text \<open>
  What the browser does during one run of the \<^verbatim>\<open>try\<close> block of \<^verbatim>\<open>startRecording\<close>:
  the tracks of the stream \<^verbatim>\<open>getUserMedia\<close> resolves to, the bytes the analyser holds
  when \<^verbatim>\<open>updateVolume()\<close> is first called, and the answers of
  \<^verbatim>\<open>MediaRecorder.isTypeSupported\<close> for \<^verbatim>\<open>'audio/mp4'\<close> and \<^verbatim>\<open>'audio/ogg'\<close>.
\<close>

record media =
  mediaTracks :: nat
  firstBins :: "nat list"
  mp4Supported :: bool
  oggSupported :: bool

text \<open>
  How far the \<^verbatim>\<open>try\<close> block gets before something throws:
  \<^item> \<open>MediaRejected\<close>: \<^verbatim>\<open>getUserMedia\<close> rejects (permission denied, no device);
  \<^item> \<open>ContextThrows\<close>: the stream is stored, then \<^verbatim>\<open>new AudioContext()\<close> throws;
  \<^item> \<open>RecorderThrows\<close>: the visualizer is set up, then \<^verbatim>\<open>new MediaRecorder(stream, { mimeType })\<close>
    throws;
  \<^item> \<open>StartThrows\<close>: the recorder is stored, then \<^verbatim>\<open>recorder.start()\<close> throws;
  \<^item> \<open>SetupOk\<close>: nothing throws.
\<close>

datatype capture_setup =
    MediaRejected
  | ContextThrows media
  | RecorderThrows media
  | StartThrows media
  | SetupOk media

text \<open>\<^verbatim>\<open>const stream = await getUserMedia({ audio: true }); streamRef.current = stream;\<close>\<close>

definition acquireStream :: "media \<Rightarrow> session \<Rightarrow> session" where
  "acquireStream m s =
     s\<lparr>streams := streams s @ [mediaTracks m], streamRef := Some (length (streams s))\<rparr>"

text \<open>Step 2 of \<^verbatim>\<open>startRecording\<close>: the audio context, the analyser and the first \<^verbatim>\<open>updateVolume()\<close>.\<close>

definition setupVisualizer :: "media \<Rightarrow> session \<Rightarrow> session" where
  "setupVisualizer m s =
     updateVolume (firstBins m)
       (s\<lparr>contexts := contexts s @ [True],
          audioContextRef := Some (length (contexts s)),
          analyserRef := Some (length (contexts s))\<rparr>)"

text \<open>
  \<^verbatim>\<open>
  let mimeType = 'audio/webm';
  if (MediaRecorder.isTypeSupported('audio/mp4')) { mimeType = 'audio/mp4'; }
  else if (MediaRecorder.isTypeSupported('audio/ogg')) { mimeType = 'audio/ogg'; }
  \<close>
\<close>

definition chooseMimeType :: "media \<Rightarrow> js_string" where
  "chooseMimeType m =
     (if mp4Supported m then lit ''audio/mp4''
      else if oggSupported m then lit ''audio/ogg''
      else lit ''audio/webm'')"

text \<open>\<^verbatim>\<open>mediaRecorderRef.current = recorder; audioChunksRef.current = [];\<close>\<close>

definition setupRecorder :: "media \<Rightarrow> session \<Rightarrow> session" where
  "setupRecorder m s =
     s\<lparr>recorders := recorders s @ [\<lparr>recActive = False, recMimeType = chooseMimeType m\<rparr>],
       mediaRecorderRef := Some (length (recorders s)),
       audioChunksRef := []\<rparr>"

text \<open>\<^verbatim>\<open>recorder.start()\<close> on the recorder just stored, and \<^verbatim>\<open>stop()\<close> on a recorder.\<close>

definition setRecActive :: "nat \<Rightarrow> bool \<Rightarrow> session \<Rightarrow> session" where
  "setRecActive r b s =
     (if r < length (recorders s)
      then s\<lparr>recorders := (recorders s)[r := (recorders s ! r)\<lparr>recActive := b\<rparr>]\<rparr>
      else s)"

definition startRecorder :: "session \<Rightarrow> session" where
  "startRecorder s = (case mediaRecorderRef s of None \<Rightarrow> s | Some r \<Rightarrow> setRecActive r True s)"

text \<open>
  \<^verbatim>\<open>startRecording\<close> in two parts. \<open>startRecording_call\<close> is what runs when the function is
  called, up to the \<^verbatim>\<open>await\<close>: with no credential it sets \<^verbatim>\<open>ERROR\<close> and returns, otherwise it
  asks for the microphone and is suspended. \<open>startRecording_resume\<close> is the rest of the
  \<^verbatim>\<open>try\<close> block and the \<^verbatim>\<open>catch\<close>, run when \<^verbatim>\<open>getUserMedia\<close> settles:
  \<^verbatim>\<open>
  } catch (error) {
    console.error("Failed to start recording:", error);
    setRecorderState(RecorderState.ERROR);
  }
  \<close>
\<close>

definition startRecording_call :: "env \<Rightarrow> session \<Rightarrow> session" where
  "startRecording_call ev s =
     (if noApiKey ev then s\<lparr>recorderState := ERROR\<rparr>
      else s\<lparr>pendingStarts := Suc (pendingStarts s)\<rparr>)"

definition startRecording_resume :: "capture_setup \<Rightarrow> session \<Rightarrow> session" where
  "startRecording_resume su s0 =
     (let s = s0\<lparr>pendingStarts := pendingStarts s0 - 1\<rparr> in
      case su of
        MediaRejected \<Rightarrow> s\<lparr>recorderState := ERROR\<rparr>
      | ContextThrows m \<Rightarrow> (acquireStream m s)\<lparr>recorderState := ERROR\<rparr>
      | RecorderThrows m \<Rightarrow> (setupVisualizer m (acquireStream m s))\<lparr>recorderState := ERROR\<rparr>
      | StartThrows m \<Rightarrow>
          (setupRecorder m (setupVisualizer m (acquireStream m s)))\<lparr>recorderState := ERROR\<rparr>
      | SetupOk m \<Rightarrow>
          (startRecorder (setupRecorder m (setupVisualizer m (acquireStream m s))))
            \<lparr>recorderState := RECORDING\<rparr>)"

text \<open>The whole call, when no other handler runs while it waits for the microphone.\<close>

definition startRecording :: "env \<Rightarrow> capture_setup \<Rightarrow> session \<Rightarrow> session" where
  "startRecording ev su s =
     (if noApiKey ev then startRecording_call ev s
      else startRecording_resume su (startRecording_call ev s))"

text \<open>\<^verbatim>\<open>recorder.ondataavailable = (e) => { if (e.data.size > 0) audioChunksRef.current.push(e.data); }\<close>\<close>

definition ondataavailable :: "nat \<Rightarrow> session \<Rightarrow> session" where
  "ondataavailable sz s =
     (if sz > 0 then s\<lparr>audioChunksRef := audioChunksRef s @ [sz]\<rparr> else s)"

text \<open>
  \<^verbatim>\<open>
  const stopRecording = useCallback(() => {
    if (mediaRecorderRef.current && mediaRecorderRef.current.state !== 'inactive') {
      mediaRecorderRef.current.stop();
      setRecorderState(RecorderState.PROCESSING);
    }
  }, []);
  \<close>
  The recorder's \<^verbatim>\<open>onstop\<close> handler, which calls \<^verbatim>\<open>handleRecordingStop(mimeType)\<close>, runs later.
\<close>

definition stopRecording :: "session \<Rightarrow> session" where
  "stopRecording s =
     (case mediaRecorderRef s of
        None \<Rightarrow> s
      | Some r \<Rightarrow>
          if r < length (recorders s) \<and> recActive (recorders s ! r)
          then (setRecActive r False s)\<lparr>recorderState := PROCESSING\<rparr>
          else s)"

text \<open>
  \<^verbatim>\<open>
  const handleRecordingStop = async (mimeType: string) => {
    try {
      const audioBlob = new Blob(audioChunksRef.current, { type: mimeType });
      const base64Audio = await blobToBase64(audioBlob);
      await translateAudio(base64Audio, mimeType);
    } catch (err) {
      setRecorderState(RecorderState.ERROR);
    } finally {
      cleanupAudio();
      setRecorderState(prev => prev === RecorderState.ERROR ? prev : RecorderState.IDLE);
    }
  };
  \<close>
  \<open>base64\<close> is what \<^verbatim>\<open>blobToBase64\<close> does: \<open>None\<close> when it rejects. \<open>translateAudio\<close> catches
  every error of the remote call itself, so the \<^verbatim>\<open>catch\<close> here is reached from the
  conversion only.
\<close>

definition finishRecording :: "session \<Rightarrow> session" where
  "finishRecording s =
     (let s1 = cleanupAudio s
      in s1\<lparr>recorderState := (if recorderState s1 = ERROR then recorderState s1 else IDLE)\<rparr>)"

definition handleRecordingStop ::
  "env \<Rightarrow> remote \<Rightarrow> js_string option \<Rightarrow> nat \<Rightarrow> nat \<Rightarrow> js_string \<Rightarrow> session \<Rightarrow> session \<times> attempts" where
  "handleRecordingStop ev rem base64 now stamp mimeType s =
     (case base64 of
        None \<Rightarrow> (finishRecording (s\<lparr>recorderState := ERROR\<rparr>), noAttempts)
      | Some base64Audio \<Rightarrow>
          (case translateAudio ev rem now stamp base64Audio mimeType s of
             (s1, a) \<Rightarrow> (finishRecording s1, a)))"

section \<open>The component (App.tsx): the mic button\<close>

text \<open>
  \<^verbatim>\<open>
  const toggleVoice = () => {
    if (isProcessing) return;
    if (isRecording) { stopRecording(); } else { startRecording(); }
  };
  \<close>
  \<^verbatim>\<open>isProcessing\<close> and \<^verbatim>\<open>isRecording\<close> are \<^verbatim>\<open>recorderState\<close> compared with \<^verbatim>\<open>PROCESSING\<close> and
  \<^verbatim>\<open>RECORDING\<close>. The call of \<^verbatim>\<open>startRecording\<close> runs up to its \<^verbatim>\<open>await\<close>.
\<close>

definition toggleVoice :: "env \<Rightarrow> session \<Rightarrow> session" where
  "toggleVoice ev s =
     (if recorderState s = PROCESSING then s
      else if recorderState s = RECORDING then stopRecording s
      else startRecording_call ev s)"

section \<open>Sample inputs\<close>

text \<open>Concrete environments, errors and remote behaviours at which the theorems below are
  instantiated.\<close>

definition sampleEnv :: env where
  "sampleEnv = \<lparr>API_KEY = Some (lit ''secret'')\<rparr>"

definition noKeyEnv :: env where
  "noKeyEnv = \<lparr>API_KEY = None\<rparr>"

definition quotaError :: js_error where
  "quotaError = \<lparr>message = Some (lit ''got status: 429 Too Many Requests''), status = Some 429,
                  toStr = lit ''Error: got status: 429 Too Many Requests''\<rparr>"

definition serverError :: js_error where
  "serverError = \<lparr>message = Some (lit ''Internal error''), status = Some 500,
                   toStr = lit ''Error: Internal error''\<rparr>"

text \<open>A Bengali word (three code units), a text of white space only (a no-break space and
  an em space), and an error with status 400 whose message happens to contain "429".\<close>

definition sampleText :: js_string where
  "sampleText = [0x0986, 0x09AE, 0x09BF]"

definition blankText :: js_string where
  "blankText = [0x00A0, 0x2003]"

definition tokenError :: js_error where
  "tokenError = \<lparr>message = Some (lit ''input has 142950 tokens''), status = Some 400,
                  toStr = lit ''Error: input has 142950 tokens''\<rparr>"

definition alwaysTokenError :: remote where
  "alwaysTokenError k req = Inl tokenError"

definition sampleMedia :: media where
  "sampleMedia =
     \<lparr>mediaTracks = 1, firstBins = replicate 128 0, mp4Supported = False, oggSupported = False\<rparr>"

definition hello :: response where
  "hello = \<lparr>responseText = Some (lit ''Hello'')\<rparr>"

definition busyTwice :: remote where
  "busyTwice k req = (if k < 2 then Inl quotaError else Inr hello)"

definition alwaysBusy :: remote where
  "alwaysBusy k req = Inl quotaError"

definition alwaysDown :: remote where
  "alwaysDown k req = Inl serverError"

definition emptyReply :: remote where
  "emptyReply k req = Inr \<lparr>responseText = None\<rparr>"

definition busyThenEmpty :: remote where
  "busyThenEmpty k req = (if k < 2 then Inl quotaError else Inr \<lparr>responseText = Some []\<rparr>)"

text \<open>The call number \<open>k\<close> fails with a rate-limit signal: it rejects with an error that the
  hook's test \<open>isQuota\<close> accepts.\<close>

definition rateLimited :: "remote \<Rightarrow> nat \<Rightarrow> request \<Rightarrow> bool" where
  "rateLimited rem k req = (case rem k req of Inl e \<Rightarrow> isQuota e | Inr resp \<Rightarrow> False)"

section \<open>Facts about the sample inputs and the helpers\<close>

lemma lit_eq_iff [simp]: "lit a = lit b \<longleftrightarrow> a = b"
  by (simp add: lit_def inj_map_eq_map inj_on_def)

lemma lit_Nil_iff [simp]: "lit a = [] \<longleftrightarrow> a = []"
  by (simp add: lit_def)

lemmas sample_defs = sampleEnv_def noKeyEnv_def quotaError_def serverError_def hello_def busyTwice_def
  alwaysBusy_def alwaysDown_def emptyReply_def tokenError_def alwaysTokenError_def busyThenEmpty_def

lemma sample_facts:
  "\<not> noApiKey sampleEnv" "noApiKey noKeyEnv" "isQuota quotaError" "\<not> isQuota serverError"
  "trim sampleText = sampleText" "trim blankText = []" "isQuota tokenError" "sampleText \<noteq> []"
  "status tokenError = Some 400"
  by (simp_all add: sample_defs noApiKey_def isQuota_def str_includes_def trim_def isSpace_def
      sampleText_def blankText_def lit_def sublist_code(3))

lemma retry_third_time:
  assumes "rateLimited rem 0 req" "rateLimited rem 1 req" "rem 2 req = Inr resp"
  shows "generateWithRetry rem req = \<lparr>outcome = Inr (Some resp), calls = 3, waits = [1000, 2000]\<rparr>"
  using assms
  by (auto simp: generateWithRetry_def rateLimited_def retryLoop.simps maxRetries_def numeral_2_eq_2 numeral_3_eq_3
      split: sum.splits)


lemma retry_first_success:
  assumes "rem 0 req = Inr resp"
  shows "generateWithRetry rem req = \<lparr>outcome = Inr (Some resp), calls = 1, waits = []\<rparr>"
  using assms by (simp add: generateWithRetry_def retryLoop.simps maxRetries_def)

lemma translateText_run:
  assumes "\<not> noApiKey ev" "trim input \<noteq> []"
  shows "translateText ev rem nowU stampU nowB stampB input s =
     (translateText_settle (toStringNat (nowB + 1)) (outcome (generateWithRetry rem (TextRequest input)))
        (appendItem \<lparr>itemId = toStringNat (nowB + 1), itemText = lit ''Translating...'', isUser = False, timestamp = stampB\<rparr>
          (appendItem \<lparr>itemId = toStringNat nowU, itemText = input, isUser = True, timestamp = stampU\<rparr> s)),
      generateWithRetry rem (TextRequest input))"
  using assms by (simp add: translateText_def translateText_begin_def Let_def)

lemma translateAudio_run:
  assumes "\<not> noApiKey ev"
  shows "translateAudio ev rem now stamp base64Audio mimeType s =
     (translateAudio_settle (toStringNat now) (outcome (generateWithRetry rem (AudioRequest mimeType base64Audio)))
        (appendItem \<lparr>itemId = toStringNat now, itemText = lit ''Translating...'', isUser = False, timestamp = stamp\<rparr> s),
      generateWithRetry rem (AudioRequest mimeType base64Audio))"
  using assms by (simp add: translateAudio_def translateAudio_begin_def Let_def)

lemma last_resolveItem:
  "last (transcriptions (resolveItem b t (appendItem \<lparr>itemId = b, itemText = x, isUser = u, timestamp = ts\<rparr> s)))
   = \<lparr>itemId = b, itemText = t, isUser = u, timestamp = ts\<rparr>"
  by (simp add: resolveItem_def appendItem_def setItemText_def)

lemma last_settle_text:
  "last (transcriptions (translateText_settle b res
      (appendItem \<lparr>itemId = b, itemText = x, isUser = u, timestamp = ts\<rparr> s)))
   = \<lparr>itemId = b,
      itemText = (case res of Inr resp \<Rightarrow> textOr resp (lit ''Could not translate.'') | Inl e \<Rightarrow> errorMessage e),
      isUser = u, timestamp = ts\<rparr>"
  by (cases res) (simp_all only: translateText_settle_def sum.case last_resolveItem)

lemma last_settle_audio:
  "last (transcriptions (translateAudio_settle b res
      (appendItem \<lparr>itemId = b, itemText = x, isUser = u, timestamp = ts\<rparr> s)))
   = \<lparr>itemId = b,
      itemText = (case res of Inr resp \<Rightarrow> textOr resp (lit ''Could not translate audio.'') | Inl e \<Rightarrow> errorMessage e),
      isUser = u, timestamp = ts\<rparr>"
  by (cases res) (simp_all only: translateAudio_settle_def sum.case last_resolveItem)

lemma recorderState_translateAudio:
  "recorderState (fst (translateAudio ev rem now stamp base64Audio mimeType s)) = recorderState s"
  by (simp add: translateAudio_def translateAudio_begin_def translateAudio_settle_def resolveItem_def
      appendItem_def Let_def split: sum.splits)

lemma recorderState_cleanupAudio: "recorderState (cleanupAudio s) = recorderState s"
  by (simp add: cleanupAudio_def closeContext_def stopTracks_def split: option.splits)

lemma recorderState_finishRecording:
  "recorderState (finishRecording s) = (if recorderState s = ERROR then ERROR else IDLE)"
  by (simp add: finishRecording_def Let_def recorderState_cleanupAudio)

lemma handleRecordingStop_Some:
  "fst (handleRecordingStop ev rem (Some b) now stamp mimeType s)
   = finishRecording (fst (translateAudio ev rem now stamp b mimeType s))"
  by (simp add: handleRecordingStop_def split: prod.splits)

lemma handleRecordingStop_None:
  "fst (handleRecordingStop ev rem None now stamp mimeType s)
   = finishRecording (s\<lparr>recorderState := ERROR\<rparr>)"
  by (simp add: handleRecordingStop_def)

lemma transcriptions_cleanupAudio: "transcriptions (cleanupAudio s) = transcriptions s"
  by (simp add: cleanupAudio_def closeContext_def stopTracks_def split: option.splits)

lemma transcriptions_finishRecording: "transcriptions (finishRecording s) = transcriptions s"
  by (simp add: finishRecording_def Let_def transcriptions_cleanupAudio)

lemma isUser_setItemText: "isUser (setItemText b t item) = isUser item"
  by (simp add: setItemText_def)

lemma isUser_resolveItem: "map isUser (transcriptions (resolveItem b t s)) = map isUser (transcriptions s)"
  by (simp add: resolveItem_def isUser_setItemText comp_def)

lemma isUser_translateAudio:
  "map isUser (transcriptions (fst (translateAudio ev rem now stamp base64Audio mimeType s)))
   = map isUser (transcriptions s) @ (if noApiKey ev then [] else [False])"
  by (simp add: translateAudio_def translateAudio_begin_def translateAudio_settle_def
      isUser_resolveItem Let_def split: sum.splits)
     (simp add: appendItem_def)

lemma transcriptions_updateVolume: "transcriptions (updateVolume bins s) = transcriptions s"
  by (simp add: updateVolume_def)

lemma transcriptions_setRecActive: "transcriptions (setRecActive r b s) = transcriptions s"
  by (simp add: setRecActive_def)

lemma transcriptions_startRecording: "transcriptions (startRecording ev su s) = transcriptions s"
  by (cases su)
     (simp_all add: startRecording_def startRecording_call_def startRecording_resume_def Let_def
        acquireStream_def setupVisualizer_def setupRecorder_def startRecorder_def
        transcriptions_updateVolume transcriptions_setRecActive)

lemma transcriptions_stopRecording: "transcriptions (stopRecording s) = transcriptions s"
  by (simp add: stopRecording_def transcriptions_setRecActive split: option.splits)

lemma cleanupAudio_refs:
  "streamRef (cleanupAudio s) = None \<and> audioContextRef (cleanupAudio s) = None
   \<and> volume (cleanupAudio s) = 0 \<and> activeTracks (cleanupAudio s) = 0"
  by (simp add: cleanupAudio_def closeContext_def stopTracks_def activeTracks_def split: option.splits)

lemma cleanupAudio_stores:
  "streams (cleanupAudio s) = (case streamRef s of None \<Rightarrow> streams s | Some h \<Rightarrow> (streams s)[h := 0])
   \<and> contexts (cleanupAudio s)
     = (case audioContextRef s of None \<Rightarrow> contexts s | Some c \<Rightarrow> (contexts s)[c := False])"
  by (simp add: cleanupAudio_def closeContext_def stopTracks_def split: option.splits)

lemma translateAudio_keeps:
  "streamRef (fst (translateAudio ev rem now stamp b mimeType s)) = streamRef s
   \<and> streams (fst (translateAudio ev rem now stamp b mimeType s)) = streams s
   \<and> audioContextRef (fst (translateAudio ev rem now stamp b mimeType s)) = audioContextRef s
   \<and> contexts (fst (translateAudio ev rem now stamp b mimeType s)) = contexts s"
  by (simp add: translateAudio_def translateAudio_begin_def translateAudio_settle_def resolveItem_def
      appendItem_def Let_def split: sum.splits)

lemma setItemText_commute:
  "a \<noteq> b \<Longrightarrow> setItemText a ta (setItemText b tb item) = setItemText b tb (setItemText a ta item)"
  by (simp add: setItemText_def)

lemma resolveItem_commute:
  "a \<noteq> b \<Longrightarrow> resolveItem a ta (resolveItem b tb s) = resolveItem b tb (resolveItem a ta s)"
  by (simp add: resolveItem_def setItemText_commute)

lemma retry_exhausted:
  assumes "rateLimited rem 0 req" "rateLimited rem 1 req" "rem 2 req = Inl e"
  shows "generateWithRetry rem req = \<lparr>outcome = Inl e, calls = 3, waits = [1000, 2000]\<rparr>"
  using assms
  by (auto simp: generateWithRetry_def rateLimited_def retryLoop.simps maxRetries_def
      numeral_2_eq_2 numeral_3_eq_3 split: sum.splits)



section \<open>Release of the microphone\<close>

text \<open>
  Claim C1 says that the microphone stream and the audio context are released on every exit
  path of a recording cycle, a capture-setup failure included. The code does not do so when
  the setup fails after the stream was acquired. Here \<^verbatim>\<open>getUserMedia\<close> hands out a stream
  with one live track, the visualizer is set up, and \<^verbatim>\<open>new MediaRecorder(...)\<close> throws: the
  \<^verbatim>\<open>catch\<close> block of \<^verbatim>\<open>startRecording\<close> only sets \<^verbatim>\<open>ERROR\<close>. The stream still has its live
  track, the audio context is still open, and the next animation frame of \<^verbatim>\<open>updateVolume\<close>
  (the analyser reading 64 in every bin) sets the volume to 64.
\<close>

theorem failed_setup_leaves_microphone_open:
  "(let s1 = startRecording sampleEnv (RecorderThrows sampleMedia) initialSession;
        s2 = updateVolume (replicate 128 64) s1
    in recorderState s1 = ERROR \<and> streamRef s1 = Some 0 \<and> activeTracks s1 = 1
       \<and> audioContextRef s1 = Some 0 \<and> contexts s1 = [True]
       \<and> activeTracks s2 = 1 \<and> volume s2 = 64)"
  by (simp add: Let_def startRecording_def startRecording_call_def startRecording_resume_def
      sample_facts acquireStream_def setupVisualizer_def updateVolume_def activeTracks_def
      initialSession_def sampleMedia_def sum_list_replicate)

text \<open>
  The path through \<^verbatim>\<open>handleRecordingStop\<close> does release them, whatever the conversion and
  the translation do: both refs are null afterwards, the volume is 0, every track of the
  stream the ref pointed to is stopped and the audio context it pointed to is closed.
\<close>

theorem recording_stop_releases_microphone:
  "streamRef (fst (handleRecordingStop ev rem base64 now stamp mimeType s)) = None
   \<and> audioContextRef (fst (handleRecordingStop ev rem base64 now stamp mimeType s)) = None
   \<and> activeTracks (fst (handleRecordingStop ev rem base64 now stamp mimeType s)) = 0
   \<and> volume (fst (handleRecordingStop ev rem base64 now stamp mimeType s)) = 0
   \<and> streams (fst (handleRecordingStop ev rem base64 now stamp mimeType s))
     = (case streamRef s of None \<Rightarrow> streams s | Some h \<Rightarrow> (streams s)[h := 0])
   \<and> contexts (fst (handleRecordingStop ev rem base64 now stamp mimeType s))
     = (case audioContextRef s of None \<Rightarrow> contexts s | Some c \<Rightarrow> (contexts s)[c := False])"
proof -
  have fin: "streamRef (finishRecording t) = None \<and> audioContextRef (finishRecording t) = None
      \<and> activeTracks (finishRecording t) = 0 \<and> volume (finishRecording t) = 0
      \<and> streams (finishRecording t) = streams (cleanupAudio t)
      \<and> contexts (finishRecording t) = contexts (cleanupAudio t)" for t
    using cleanupAudio_refs [of t] by (simp add: finishRecording_def Let_def activeTracks_def)
  show ?thesis
  proof (cases base64)
    case None
    then show ?thesis
      by (simp add: handleRecordingStop_None fin cleanupAudio_stores split: option.splits)
  next
    case (Some b)
    then show ?thesis
      by (simp add: handleRecordingStop_Some fin cleanupAudio_stores translateAudio_keeps
          split: option.splits)
  qed
qed

section \<open>Retries\<close>






text \<open>
  When all three attempts fail with a rate-limit signal, the loop makes 3 calls, waits
  1000 ms and 2000 ms, and throws the error of the third attempt.
\<close>

theorem retries_exhausted_after_three_attempts:
  assumes "rateLimited rem 0 req" and "rateLimited rem 1 req" and "rem 2 req = Inl e"
  shows "generateWithRetry rem req = \<lparr>outcome = Inl e, calls = 3, waits = [1000, 2000]\<rparr>"
  using assms by (rule retry_exhausted)

theorem retries_exhausted_after_three_attempts_witness:
  "generateWithRetry alwaysBusy (TextRequest sampleText)
     = \<lparr>outcome = Inl quotaError, calls = 3, waits = [1000, 2000]\<rparr>"
  using retries_exhausted_after_three_attempts [of alwaysBusy "TextRequest sampleText" quotaError]
  by (simp add: rateLimited_def alwaysBusy_def sample_facts)

section \<open>A response without text\<close>

text \<open>
  Claim C4, as stated, fails for audio: when the remote call succeeds and the response
  carries no text, \<^verbatim>\<open>translateAudio\<close> does not resolve the placeholder to
  \<^verbatim>\<open>"Could not translate."\<close>.
\<close>

theorem empty_response_audio_fallback_differs:
  "itemText (last (transcriptions
      (fst (translateAudio sampleEnv emptyReply 1000 1000 (lit ''UklGRg=='') (lit ''audio/webm'') initialSession))))
   \<noteq> lit ''Could not translate.''"
  by (simp add: translateAudio_run [OF sample_facts(1)] last_settle_audio
      retry_first_success [of emptyReply _ "\<lparr>responseText = None\<rparr>"] emptyReply_def textOr_def)

text \<open>
  Claim C4, amended. When the remote call of a translate call succeeds, at the first attempt
  or after retries, but the response carries no text (the text is undefined or empty), a
  text translate call resolves its placeholder to the literal \<^verbatim>\<open>"Could not translate."\<close>,
  and an audio translate call resolves its placeholder to the literal
  \<^verbatim>\<open>"Could not translate audio."\<close>.
\<close>

theorem empty_response_resolves_to_fallback:
  assumes key: "\<not> noApiKey ev"
    and ok: "outcome (generateWithRetry rem req) = Inr (Some resp)"
    and empty: "responseText resp = None \<or> responseText resp = Some []"
  shows
    "(req = AudioRequest mimeType base64Audio \<longrightarrow>
        last (transcriptions (fst (translateAudio ev rem now stamp base64Audio mimeType s)))
          = \<lparr>itemId = toStringNat now, itemText = lit ''Could not translate audio.'',
             isUser = False, timestamp = stamp\<rparr>)
     \<and> (req = TextRequest input \<and> trim input \<noteq> [] \<longrightarrow>
        last (transcriptions (fst (translateText ev rem nowU stampU nowB stampB input s)))
          = \<lparr>itemId = toStringNat (nowB + 1), itemText = lit ''Could not translate.'',
             isUser = False, timestamp = stampB\<rparr>)"
proof -
  have t: "textOr (Some resp) fallback = fallback" for fallback
    using empty by (auto simp: textOr_def)
  show ?thesis
    using ok t
    by (auto simp: translateAudio_run [OF key] translateText_run [OF key]
        last_settle_audio last_settle_text)
qed

theorem empty_response_resolves_to_fallback_witness:
  "itemText (last (transcriptions
      (fst (translateAudio sampleEnv busyThenEmpty 1000 1000 (lit ''UklGRg=='') (lit ''audio/webm'')
         initialSession))))
     = lit ''Could not translate audio.''
   \<and> itemText (last (transcriptions
      (fst (translateText sampleEnv emptyReply 1000 1000 1000 1000 sampleText initialSession))))
     = lit ''Could not translate.''"
  using empty_response_resolves_to_fallback [of sampleEnv busyThenEmpty
      "AudioRequest (lit ''audio/webm'') (lit ''UklGRg=='')" "\<lparr>responseText = Some []\<rparr>"
      "lit ''audio/webm''" "lit ''UklGRg==''" 1000 1000 initialSession sampleText 1000 1000 1000 1000]
    empty_response_resolves_to_fallback [of sampleEnv emptyReply "TextRequest sampleText"
      "\<lparr>responseText = None\<rparr>" "lit ''audio/webm''" "lit ''UklGRg==''" 1000 1000 initialSession
      sampleText 1000 1000 1000 1000]
    retry_third_time [of busyThenEmpty "AudioRequest (lit ''audio/webm'') (lit ''UklGRg=='')"
      "\<lparr>responseText = Some []\<rparr>"]
    retry_first_success [of emptyReply "TextRequest sampleText" "\<lparr>responseText = None\<rparr>"]
  by (simp add: sample_facts emptyReply_def busyThenEmpty_def rateLimited_def)

section \<open>The recorder state after a cycle\<close>

text \<open>
  Claim C5. Once the translate step of a recording cycle has settled, with success or
  failure, \<^verbatim>\<open>handleRecordingStop\<close> sets the recorder state back to \<^verbatim>\<open>IDLE\<close> unless it is
  already \<^verbatim>\<open>ERROR\<close>, in which case it stays \<^verbatim>\<open>ERROR\<close>. When the conversion of the recording
  fails instead, the state ends as \<^verbatim>\<open>ERROR\<close>. In no case is the state left at \<^verbatim>\<open>PROCESSING\<close>.
  The last conjunct is the \<^verbatim>\<open>finally\<close> block on its own, for whatever state \<open>t\<close> the session is
  in when the translate step settles.
\<close>

theorem recording_cycle_returns_to_idle:
  "recorderState (fst (handleRecordingStop ev rem (Some base64Audio) now stamp mimeType s))
     = (if recorderState s = ERROR then ERROR else IDLE)
   \<and> recorderState (fst (handleRecordingStop ev rem None now stamp mimeType s)) = ERROR
   \<and> recorderState (fst (handleRecordingStop ev rem base64 now stamp mimeType s)) \<noteq> PROCESSING
   \<and> recorderState (finishRecording t) = (if recorderState t = ERROR then ERROR else IDLE)"
  by (cases base64)
     (simp_all add: handleRecordingStop_Some handleRecordingStop_None recorderState_finishRecording
        recorderState_translateAudio)

theorem recording_cycle_returns_to_idle_witness:
  "recorderState (stopRecording (startRecording sampleEnv (SetupOk sampleMedia) initialSession))
     = PROCESSING
   \<and> recorderState (fst (handleRecordingStop sampleEnv alwaysDown (Some (lit ''UklGRg=='')) 1000 1000
        (lit ''audio/webm'')
        (stopRecording (startRecording sampleEnv (SetupOk sampleMedia) initialSession)))) = IDLE"
  using recording_cycle_returns_to_idle [of sampleEnv alwaysDown "lit ''UklGRg==''" 1000 1000 "lit ''audio/webm''"
      "stopRecording (startRecording sampleEnv (SetupOk sampleMedia) initialSession)" None]
  by (simp add: Let_def startRecording_def startRecording_call_def startRecording_resume_def
      sample_facts acquireStream_def setupVisualizer_def updateVolume_def activeTracks_def
      setupRecorder_def startRecorder_def setRecActive_def stopRecording_def
      initialSession_def sampleMedia_def)

section \<open>The mic button while processing\<close>

text \<open>
  Claim C6 says that no transition from \<^verbatim>\<open>PROCESSING\<close> directly to \<^verbatim>\<open>RECORDING\<close> is ever
  possible. The guard of \<^verbatim>\<open>toggleVoice\<close> covers the button only: a call of \<^verbatim>\<open>startRecording\<close>
  that is still waiting for the microphone sets \<^verbatim>\<open>RECORDING\<close> when it resumes, whatever the
  state is by then. Here the button is pressed twice while idle (two calls are suspended at
  \<^verbatim>\<open>getUserMedia\<close>), the first call resumes and records, the button is pressed again (the
  recorder is stopped, the state is \<^verbatim>\<open>PROCESSING\<close>), and then the second call resumes: the
  state goes from \<^verbatim>\<open>PROCESSING\<close> to \<^verbatim>\<open>RECORDING\<close>.
\<close>

theorem late_start_leaves_processing_for_recording:
  "(let s1 = toggleVoice sampleEnv initialSession;
        s2 = toggleVoice sampleEnv s1;
        s3 = startRecording_resume (SetupOk sampleMedia) s2;
        s4 = toggleVoice sampleEnv s3;
        s5 = startRecording_resume (SetupOk sampleMedia) s4
    in recorderState s2 = IDLE \<and> pendingStarts s2 = 2
       \<and> recorderState s3 = RECORDING
       \<and> recorderState s4 = PROCESSING \<and> pendingStarts s4 = 1
       \<and> recorderState s5 = RECORDING)"
  by (simp add: Let_def toggleVoice_def startRecording_call_def startRecording_resume_def
      sample_facts acquireStream_def setupVisualizer_def updateVolume_def activeTracks_def
      setupRecorder_def startRecorder_def setRecActive_def stopRecording_def
      initialSession_def sampleMedia_def)

text \<open>
  The button itself is ignored while the state is \<^verbatim>\<open>PROCESSING\<close>: pressing it changes
  nothing, neither the recorder state nor the transcript nor anything else.
\<close>

theorem toggle_ignored_while_processing:
  "toggleVoice ev (s\<lparr>recorderState := PROCESSING\<rparr>) = s\<lparr>recorderState := PROCESSING\<rparr>"
  by (simp add: toggleVoice_def)

section \<open>Ids of transcript items\<close>

text \<open>
  Claim C7 says that every transcript item carries a unique id and that of two concurrent
  text submissions each resolves only its own placeholder. The ids are clock readings, so
  two submissions made within the same millisecond get the same ids. Here \<^verbatim>\<open>"A"\<close> and
  \<^verbatim>\<open>"B"\<close> are both submitted at clock reading 1000: both placeholders get the id
  \<^verbatim>\<open>"1001"\<close>. The response to B arrives first and is written into both placeholders; the
  response to A then overwrites both, so B's placeholder ends with A's translation.
\<close>

theorem same_millisecond_submissions_share_ids:
  "(let (s1, a) = translateText_begin sampleEnv 1000 1000 1000 1000 (lit ''A'') initialSession;
        (s2, b) = translateText_begin sampleEnv 1000 1000 1000 1000 (lit ''B'') s1;
        s3 = translateText_settle (lit ''1001'') (Inr (Some \<lparr>responseText = Some (lit ''B-en'')\<rparr>)) s2;
        s4 = translateText_settle (lit ''1001'') (Inr (Some \<lparr>responseText = Some (lit ''A-en'')\<rparr>)) s3
    in a = Some (lit ''1001'') \<and> b = Some (lit ''1001'')
       \<and> map itemId (transcriptions s4) = [(lit ''1000''), (lit ''1001''), (lit ''1000''), (lit ''1001'')]
       \<and> map itemText (transcriptions s3) = [(lit ''A''), (lit ''B-en''), (lit ''B''), (lit ''B-en'')]
       \<and> map itemText (transcriptions s4) = [(lit ''A''), (lit ''A-en''), (lit ''B''), (lit ''A-en'')])"
  by (simp add: Let_def translateText_begin_def translateText_settle_def sample_facts
      appendItem_def resolveItem_def setItemText_def textOr_def trim_def isSpace_def
      toStringNat.simps digitUnit_def lit_def initialSession_def)

text \<open>
  When the ids of two placeholders differ, their settlements commute (the order in which
  the responses arrive does not matter), and a settlement leaves every item with another
  id as it was.
\<close>

theorem settle_distinct_ids_independent:
  assumes "a \<noteq> b"
  shows "translateText_settle a ra (translateText_settle b rb s)
           = translateText_settle b rb (translateText_settle a ra s)
       \<and> filter (\<lambda>item. itemId item \<noteq> a) (transcriptions (translateText_settle a ra s))
           = filter (\<lambda>item. itemId item \<noteq> a) (transcriptions s)"
proof
  show "translateText_settle a ra (translateText_settle b rb s)
           = translateText_settle b rb (translateText_settle a ra s)"
    using assms by (simp add: translateText_settle_def resolveItem_commute split: sum.splits)
  have "filter (\<lambda>item. itemId item \<noteq> a) (map (setItemText a t) xs)
          = filter (\<lambda>item. itemId item \<noteq> a) xs" for t xs
    by (induction xs) (auto simp: setItemText_def)
  then show "filter (\<lambda>item. itemId item \<noteq> a) (transcriptions (translateText_settle a ra s))
           = filter (\<lambda>item. itemId item \<noteq> a) (transcriptions s)"
    by (simp add: translateText_settle_def resolveItem_def split: sum.splits)
qed

theorem settle_distinct_ids_independent_witness:
  "translateText_settle (lit ''1001'') (Inr (Some hello))
       (translateText_settle (lit ''2001'') (Inl serverError) initialSession)
     = translateText_settle (lit ''2001'') (Inl serverError)
       (translateText_settle (lit ''1001'') (Inr (Some hello)) initialSession)"
  using settle_distinct_ids_independent [of "lit ''1001''" "lit ''2001''" "Inr (Some hello)" "Inl serverError"
      initialSession]
  by simp

section \<open>Failures shown in the transcript\<close>




section \<open>A missing credential\<close>

text \<open>
  Claim C9, as stated, fails for the translate calls: without the credential they are not
  rejected and latch no error. \<^verbatim>\<open>translateAudio\<close> and \<^verbatim>\<open>translateText\<close> just return: the
  recorder state stays \<^verbatim>\<open>IDLE\<close>, nothing is written to the transcript, and the outcome is
  the same as that of a submission of white space with the credential present.
\<close>

theorem missing_credential_translate_is_silent:
  "recorderState (fst (translateText noKeyEnv alwaysBusy 1000 1000 1000 1000 sampleText initialSession))
     = IDLE
   \<and> transcriptions (fst (translateText noKeyEnv alwaysBusy 1000 1000 1000 1000 sampleText
        initialSession)) = []
   \<and> translateText noKeyEnv alwaysBusy 1000 1000 1000 1000 sampleText initialSession
     = translateText sampleEnv alwaysBusy 1000 1000 1000 1000 blankText initialSession
   \<and> recorderState (fst (translateAudio noKeyEnv alwaysBusy 1000 1000 (lit ''UklGRg=='')
        (lit ''audio/webm'') initialSession)) = IDLE
   \<and> transcriptions (fst (translateAudio noKeyEnv alwaysBusy 1000 1000 (lit ''UklGRg=='')
        (lit ''audio/webm'') initialSession)) = []"
  by (simp add: translateText_def translateText_begin_def translateAudio_def translateAudio_begin_def
      sample_facts initialSession_def)

text \<open>
  Claim C9, amended. When the credential \<^verbatim>\<open>process.env.API_KEY\<close> is absent (undefined or
  empty), \<^verbatim>\<open>startRecording\<close> sets the recorder state to \<^verbatim>\<open>ERROR\<close> and does nothing else (it
  does not even ask for the microphone); \<^verbatim>\<open>translateAudio\<close> and \<^verbatim>\<open>translateText\<close> return
  silently, leaving the whole session, recorder state and transcript included, as it was;
  and no call of the remote endpoint is made, by these or by \<^verbatim>\<open>handleRecordingStop\<close>.
\<close>

theorem missing_credential_fails_fast:
  assumes "noApiKey ev"
  shows "startRecording ev su s = s\<lparr>recorderState := ERROR\<rparr>
       \<and> startRecording_call ev s = s\<lparr>recorderState := ERROR\<rparr>
       \<and> fst (translateAudio ev rem now stamp base64Audio mimeType s) = s
       \<and> calls (snd (translateAudio ev rem now stamp base64Audio mimeType s)) = 0
       \<and> fst (translateText ev rem nowU stampU nowB stampB input s) = s
       \<and> calls (snd (translateText ev rem nowU stampU nowB stampB input s)) = 0
       \<and> calls (snd (handleRecordingStop ev rem base64 now stamp mimeType s)) = 0"
  using assms
  by (cases base64)
     (simp_all add: startRecording_def startRecording_call_def translateAudio_def
        translateAudio_begin_def translateText_def translateText_begin_def noAttempts_def
        handleRecordingStop_def)

theorem missing_credential_fails_fast_witness:
  "recorderState (startRecording noKeyEnv (SetupOk sampleMedia) initialSession) = ERROR
   \<and> pendingStarts (startRecording_call noKeyEnv initialSession) = 0
   \<and> translateAudio noKeyEnv alwaysBusy 1000 1000 (lit ''UklGRg=='') (lit ''audio/webm'') initialSession
       = (initialSession, noAttempts)
   \<and> translateText noKeyEnv alwaysBusy 1000 1000 1000 1000 sampleText initialSession
       = (initialSession, noAttempts)"
  using missing_credential_fails_fast [of noKeyEnv "SetupOk sampleMedia" initialSession alwaysBusy
      1000 1000 "lit ''UklGRg==''" "lit ''audio/webm''" 1000 1000 1000 1000 sampleText None]
  by (simp add: sample_facts initialSession_def translateAudio_def translateAudio_begin_def
      translateText_def translateText_begin_def)

text \<open>
  The same holds for a text of white space only, whatever the credential: \<^verbatim>\<open>translateText\<close>
  returns with the session unchanged and without a remote call. White space is what
  \<^verbatim>\<open>trim\<close> removes, the no-break space and the other Unicode spaces included.
\<close>

theorem blank_text_is_not_submitted:
  assumes "trim input = []"
  shows "translateText ev rem nowU stampU nowB stampB input s = (s, noAttempts)"
  using assms by (simp add: translateText_def translateText_begin_def)

theorem blank_text_is_not_submitted_witness:
  "translateText sampleEnv alwaysBusy 1000 1000 1000 1000 blankText initialSession
     = (initialSession, noAttempts)"
  using blank_text_is_not_submitted [of blankText sampleEnv alwaysBusy 1000 1000 1000 1000 initialSession]
  by (simp add: sample_facts)

section \<open>What an audio cycle adds to the transcript\<close>

text \<open>
  Claim C10. A recording cycle appends at most one item to the transcript: the translation
  placeholder that \<^verbatim>\<open>translateAudio\<close> creates, with \<^verbatim>\<open>isUser = false\<close> and the text
  \<^verbatim>\<open>"Translating..."\<close>. It creates no item with \<^verbatim>\<open>isUser = true\<close>: the \<^verbatim>\<open>isUser\<close> flags of
  the transcript after \<^verbatim>\<open>handleRecordingStop\<close> are those before it, followed by one
  \<^verbatim>\<open>false\<close> when the conversion succeeded and the credential is present, and
  \<^verbatim>\<open>startRecording\<close> and \<^verbatim>\<open>stopRecording\<close> leave the transcript alone.
\<close>

theorem audio_cycle_appends_one_translation_item:
  "map isUser (transcriptions (fst (handleRecordingStop ev rem base64 now stamp mimeType s)))
     = map isUser (transcriptions s) @ (if noApiKey ev \<or> base64 = None then [] else [False])
   \<and> transcriptions (fst (translateAudio_begin ev now stamp s))
     = transcriptions s @
        (if noApiKey ev then []
         else [\<lparr>itemId = toStringNat now, itemText = lit ''Translating...'', isUser = False,
                timestamp = stamp\<rparr>])
   \<and> transcriptions (startRecording ev su s) = transcriptions s
   \<and> transcriptions (stopRecording s) = transcriptions s"
proof (intro conjI)
  show "map isUser (transcriptions (fst (handleRecordingStop ev rem base64 now stamp mimeType s)))
     = map isUser (transcriptions s) @ (if noApiKey ev \<or> base64 = None then [] else [False])"
    by (cases base64)
       (simp_all add: handleRecordingStop_Some handleRecordingStop_None
          transcriptions_finishRecording isUser_translateAudio)
  show "transcriptions (fst (translateAudio_begin ev now stamp s))
     = transcriptions s @
        (if noApiKey ev then []
         else [\<lparr>itemId = toStringNat now, itemText = lit ''Translating...'', isUser = False,
                timestamp = stamp\<rparr>])"
    by (simp add: translateAudio_begin_def appendItem_def Let_def)
  show "transcriptions (startRecording ev su s) = transcriptions s"
    by (rule transcriptions_startRecording)
  show "transcriptions (stopRecording s) = transcriptions s"
    by (rule transcriptions_stopRecording)
qed

theorem audio_cycle_appends_one_translation_item_witness:
  "map isUser (transcriptions (fst (handleRecordingStop sampleEnv busyTwice (Some (lit ''UklGRg=='')) 1000 1000
      (lit ''audio/webm'') (stopRecording (startRecording sampleEnv (SetupOk sampleMedia) initialSession)))))
   = [False]"
  using audio_cycle_appends_one_translation_item [of sampleEnv busyTwice "Some (lit ''UklGRg=='')" 1000 1000
      "lit ''audio/webm''" "stopRecording (startRecording sampleEnv (SetupOk sampleMedia) initialSession)"
      "SetupOk sampleMedia"]
    audio_cycle_appends_one_translation_item [of sampleEnv busyTwice "Some (lit ''UklGRg=='')" 1000 1000
      "lit ''audio/webm''" "startRecording sampleEnv (SetupOk sampleMedia) initialSession"
      "SetupOk sampleMedia"]
    audio_cycle_appends_one_translation_item [of sampleEnv busyTwice "Some (lit ''UklGRg=='')" 1000 1000
      "lit ''audio/webm''" initialSession "SetupOk sampleMedia"]
  by (simp add: sample_facts initialSession_def)

section \<open>Clearing the history\<close>

text \<open>
  \<^verbatim>\<open>clearHistory\<close> empties the transcript, and on an empty transcript it changes nothing.
\<close>

theorem clearHistory_empties_transcript:
  "transcriptions (clearHistory s) = []
   \<and> clearHistory (s\<lparr>transcriptions := []\<rparr>) = s\<lparr>transcriptions := []\<rparr>"
  by (simp add: clearHistory_def)

end
